theory Spec2Isabelle
  imports Complex_Main "HOL-Library.Multiset"
begin

section \<open>Python values\<close>

text \<open>
  A Python \<^verbatim>\<open>str\<close> is a sequence of Unicode code points, and is modelled as the list of
  these numbers, so that every string the program can meet has its place. \<open>lit\<close> writes the
  string with the characters of a literal of this theory.
\<close>

type_synonym pystr = "nat list"

definition lit :: "string \<Rightarrow> pystr" where
  "lit s = map of_char s"

text \<open>
  A Python \<^verbatim>\<open>float\<close>: a finite one by the real number it stands for, the two infinities
  and \<^verbatim>\<open>nan\<close>. No arithmetic is done on floats: they are read from the data set and passed
  on.
\<close>

datatype pyfloat = Finite real | PosInf | NegInf | NaN

text \<open>
  The values that flow through \<^verbatim>\<open>s3_orchestrator.py\<close>: \<^verbatim>\<open>None\<close>, strings, integers,
  floats, booleans, the timestamps pandas makes of date cells (by their text) with the
  missing timestamp \<^verbatim>\<open>NaT\<close>, lists and dictionaries. A Python \<^verbatim>\<open>dict\<close> keeps its keys in
  insertion order, so a dictionary is an association list with distinct keys: assigning
  to a key that is present replaces the value where it stands, assigning to a new key
  appends the entry.
\<close>

datatype pyval =
    PNone
  | PStr pystr
  | PInt int
  | PFloat pyfloat
  | PBool bool
  | PTimestamp pystr
  | PNaT
  | PList "pyval list"
  | PDict "(pystr \<times> pyval) list"

type_synonym pydict = "(pystr \<times> pyval) list"

text \<open>\<^verbatim>\<open>key in d\<close> and \<^verbatim>\<open>d[key]\<close> (the latter guarded by the former wherever the source reads).\<close>

definition dict_get :: "pydict \<Rightarrow> pystr \<Rightarrow> pyval option" where
  "dict_get d k = map_of d k"

text \<open>\<^verbatim>\<open>d[key] = value\<close>.\<close>

fun dict_set :: "pydict \<Rightarrow> pystr \<Rightarrow> pyval \<Rightarrow> pydict" where
  "dict_set [] k v = [(k, v)]"
| "dict_set ((k', v') # d) k v =
     (if k' = k then (k, v) # d else (k', v') # dict_set d k v)"

text \<open>\<^verbatim>\<open>d.update(other)\<close>: the entries of \<^verbatim>\<open>other\<close> are assigned in their order.\<close>

definition dict_update :: "pydict \<Rightarrow> pydict \<Rightarrow> pydict" where
  "dict_update d other = foldl (\<lambda>acc (k, v). dict_set acc k v) d other"

section \<open>Strings\<close>

text \<open>
  The characters \<^verbatim>\<open>str.strip()\<close> removes are those for which \<^verbatim>\<open>str.isspace()\<close> holds: tab
  to carriage return (9 to 13), the separators \<^verbatim>\<open>0x1c\<close> to \<^verbatim>\<open>0x1f\<close>, the space, \<^verbatim>\<open>U+0085\<close>,
  \<^verbatim>\<open>U+00A0\<close>, \<^verbatim>\<open>U+1680\<close>, \<^verbatim>\<open>U+2000\<close> to \<^verbatim>\<open>U+200A\<close>, \<^verbatim>\<open>U+2028\<close>, \<^verbatim>\<open>U+2029\<close>, \<^verbatim>\<open>U+202F\<close>,
  \<^verbatim>\<open>U+205F\<close> and \<^verbatim>\<open>U+3000\<close>.
\<close>

definition is_space :: "nat \<Rightarrow> bool" where
  "is_space c =
     ((9 \<le> c \<and> c \<le> 13) \<or> (28 \<le> c \<and> c \<le> 32) \<or> c = 0x85 \<or> c = 0xA0 \<or> c = 0x1680 \<or>
      (0x2000 \<le> c \<and> c \<le> 0x200A) \<or> c = 0x2028 \<or> c = 0x2029 \<or> c = 0x202F \<or>
      c = 0x205F \<or> c = 0x3000)"

definition strip :: "pystr \<Rightarrow> pystr" where
  "strip s = rev (dropWhile is_space (rev (dropWhile is_space s)))"

text \<open>\<^verbatim>\<open>s.split(sep)\<close> for a one-character separator: never an empty list.\<close>

fun py_split :: "nat \<Rightarrow> pystr \<Rightarrow> pystr list" where
  "py_split sep [] = [[]]"
| "py_split sep (c # cs) =
     (if c = sep then [] # py_split sep cs
      else (case py_split sep cs of
              [] \<Rightarrow> [[c]]
            | p # ps \<Rightarrow> (c # p) # ps))"

text \<open>
  \<^verbatim>\<open>str(n)\<close> of an integer: its decimal digits (the digit \<open>d\<close> is the code point \<open>48 + d\<close>),
  with a minus sign when negative.
\<close>

fun str_nat :: "nat \<Rightarrow> pystr" where
  "str_nat n = (if n < 10 then [48 + n] else str_nat (n div 10) @ [48 + n mod 10])"

declare str_nat.simps [simp del]

definition str_int :: "int \<Rightarrow> pystr" where
  "str_int i = (if i < 0 then of_char CHR ''-'' # str_nat (nat (- i)) else str_nat (nat i))"

section \<open>The markup tree and its conversion\<close>

text \<open>
  An \<^verbatim>\<open>xml.etree.ElementTree.Element\<close>: its tag, its attribute dictionary (string to
  string, keys distinct), its text (\<^verbatim>\<open>None\<close> when the element has none) and its child
  elements in document order. The tail text of an element is never read by the source.
\<close>

datatype element =
  Element (tag: pystr) (attrib: "(pystr \<times> pystr) list") (text_of: "pystr option")
    (children: "element list")

text \<open>
  The body of the child loop of \<^verbatim>\<open>_xml_to_dict\<close> (lines 181 to 187): a tag that is already
  a key has its value turned into a list, unless it is one, and the child's data appended;
  a new tag is assigned the child's data.
\<close>

definition add_child :: "pydict \<Rightarrow> pystr \<Rightarrow> pyval \<Rightarrow> pydict" where
  "add_child result child_tag child_data =
     (case dict_get result child_tag of
        None \<Rightarrow> dict_set result child_tag child_data
      | Some (PList vs) \<Rightarrow> dict_set result child_tag (PList (vs @ [child_data]))
      | Some v \<Rightarrow> dict_set result child_tag (PList [v, child_data]))"

text \<open>
  The test \<^verbatim>\<open>element.text and element.text.strip()\<close> of line 171, together with the value
  \<^verbatim>\<open>element.text.strip()\<close> that both branches under it use: \<open>None\<close> when the test fails.
\<close>

definition stripped_text :: "pystr option \<Rightarrow> pystr option" where
  "stripped_text t =
     (case t of
        None \<Rightarrow> None
      | Some s \<Rightarrow> if s \<noteq> [] \<and> strip s \<noteq> [] then Some (strip s) else None)"

definition attrib_items :: "(pystr \<times> pystr) list \<Rightarrow> pydict" where
  "attrib_items attrs = map (\<lambda>(k, v). (k, PStr v)) attrs"

text \<open>
  \<^verbatim>\<open>_xml_to_dict\<close> (lines 162 to 189). Despite its annotation the function returns a
  string for a childless element with text, and a dictionary otherwise.
\<close>

fun xml_to_dict :: "element \<Rightarrow> pyval" where
  "xml_to_dict (Element tg attrs txt cs) =
     (let result0 = (if attrs \<noteq> [] then dict_update [] (attrib_items attrs) else []) in
      case stripped_text txt of
        Some s \<Rightarrow>
          if cs = [] then PStr s
          else PDict (foldl (\<lambda>result child. add_child result (tag child) (xml_to_dict child))
                        (dict_set result0 (lit ''text'') (PStr s)) cs)
      | None \<Rightarrow>
          PDict (foldl (\<lambda>result child. add_child result (tag child) (xml_to_dict child))
                   result0 cs))"

text \<open>
  What one pass of the child loop does to the value stored under the child's tag, seen
  from that key alone. It is used to state the loop's effect, not by the conversion.
\<close>

definition slot_add :: "pyval option \<Rightarrow> pyval \<Rightarrow> pyval option" where
  "slot_add old v =
     (case old of
        None \<Rightarrow> Some v
      | Some (PList ws) \<Rightarrow> Some (PList (ws @ [v]))
      | Some w \<Rightarrow> Some (PList [w, v]))"

text \<open>
  The dictionary the child loop starts from: the attributes, then the trimmed text under
  the key \<^verbatim>\<open>text\<close> when there is some (lines 164 to 175, for an element with children or
  without text).
\<close>

definition seed_dict :: "(pystr \<times> pystr) list \<Rightarrow> pystr option \<Rightarrow> pydict" where
  "seed_dict attrs txt =
     (let result0 = (if attrs \<noteq> [] then dict_update [] (attrib_items attrs) else []) in
      case stripped_text txt of
        None \<Rightarrow> result0
      | Some s \<Rightarrow> dict_set result0 (lit ''text'') (PStr s))"

section \<open>The reference dataset\<close>

text \<open>
  The data frame, as \<^verbatim>\<open>get_excel_row\<close> observes it. The frame has its column labels
  (\<^verbatim>\<open>read_excel\<close> makes them distinct) and its rows in order. Of a row the function sees
  two things, both made by pandas and both taken here as data of the row:
  \<^item> for a column label, the entry of that row in \<^verbatim>\<open>df[label].astype(str)\<close>: the string
    pandas makes of the cell under the type it gave the column, or \<open>None\<close> where the cast
    leaves the cell missing, as pandas may do for a blank cell; a missing entry is equal
    to no string;
  \<^item> the dictionary \<^verbatim>\<open>iloc[.].to_dict()\<close> gives for that row, from column label to value,
    with the values as pandas converts them for the row.
  Which strings and values pandas derives from the cells of the spreadsheet (the type it
  infers for a column, the common type it gives a row) is left to pandas. The last field
  is the text of the \<^verbatim>\<open>KeyError\<close> raised for a label the frame lacks.
\<close>

record frame_row =
  astype_str :: "pystr \<Rightarrow> pystr option"
  to_dict :: pydict

record dataframe =
  df_columns :: "pystr list"
  df_rows :: "frame_row list"
  df_key_error :: "pystr \<Rightarrow> pystr"

text \<open>\<^verbatim>\<open>pd.isna\<close> on a scalar: \<^verbatim>\<open>None\<close>, the float \<^verbatim>\<open>nan\<close> and \<^verbatim>\<open>NaT\<close> are missing.\<close>

definition isna :: "pyval \<Rightarrow> bool" where
  "isna v = (v = PNone \<or> v = PFloat NaN \<or> v = PNaT)"

text \<open>
  An exception, as far as the source looks at one: the text \<^verbatim>\<open>str(e)\<close> gives.
\<close>

datatype exn = Exception pystr

definition str_exn :: "exn \<Rightarrow> pystr" where
  "str_exn e = (case e of Exception m \<Rightarrow> m)"

text \<open>
  The \<^verbatim>\<open>try\<close> block of \<^verbatim>\<open>get_excel_row\<close> (lines 120 to 135): selecting a column the frame
  lacks raises \<^verbatim>\<open>KeyError\<close>; the rows whose entry in the match column, cast to a string,
  equals the identifier are kept (\<^verbatim>\<open>str(identifier)\<close> is the identifier, a string
  already); none gives the error dictionary of line 125, otherwise the dictionary of the
  first has each missing value replaced by \<^verbatim>\<open>None\<close>.
\<close>

definition get_excel_row_try :: "dataframe \<Rightarrow> pystr \<Rightarrow> pystr \<Rightarrow> exn + pyval" where
  "get_excel_row_try df match_column identifier =
     (if match_column \<notin> set (df_columns df)
      then Inl (Exception (df_key_error df match_column))
      else
        (case filter (\<lambda>r. astype_str r match_column = Some identifier) (df_rows df) of
           [] \<Rightarrow> Inr (PDict [(lit ''error'',
                    PStr (lit ''No matching row found for identifier: '' @ identifier))])
         | r # _ \<Rightarrow>
             Inr (PDict (map (\<lambda>(key, value). (key, if isna value then PNone else value))
                           (to_dict r)))))"

section \<open>The orchestrator and its collaborators\<close>

text \<open>
  What a request to \<^verbatim>\<open>api_base_url/identifier\<close> does: the transport raises, or a response
  arrives with its status and its body. The body is given by what \<^verbatim>\<open>ET.fromstring\<close> makes
  of it: a parse error or the root element.
\<close>

datatype body = Malformed exn | Wellformed element

datatype http_result = Raises exn | Response int body

text \<open>
  The orchestrator object and the world around it: the loaded data frame and the
  configuration of \<^verbatim>\<open>__init__\<close>, the remote API, the S3 client's \<^verbatim>\<open>copy_object\<close> (\<open>Some\<close> of
  the text of the exception it raises, \<open>None\<close> when it succeeds), the clock read by
  \<^verbatim>\<open>combine_data\<close>, and \<open>task_fault\<close>: the exception (of class \<^verbatim>\<open>Exception\<close>), if any,
  that the event loop or the executor raises in the task of a given position outside the
  pipeline's own handler. A request is a function of its URL and a copy a function of
  its key and metadata: a step repeated for the same input gives the same result.
\<close>

record world =
  excel_df :: dataframe
  excel_match_column :: pystr
  api_base_url :: pystr
  http_get :: "pystr \<Rightarrow> http_result"
  s3_copy_object :: "pystr \<Rightarrow> pyval \<Rightarrow> pystr option"
  timestamp_now :: "pystr \<Rightarrow> pystr"
  task_fault :: "nat \<Rightarrow> pystr option"

record ProcessingResult =
  s3_key :: pystr
  excel_data :: pyval
  api_data :: pyval
  combined_metadata :: pyval
  success :: bool
  error_message :: "pystr option"

text \<open>\<^verbatim>\<open>extract_identifier_from_key\<close> (lines 107 to 115).\<close>

definition extract_identifier_from_key :: "pystr \<Rightarrow> pystr" where
  "extract_identifier_from_key key =
     (let filename = last (py_split (of_char CHR ''/'') key);
          identifier = hd (py_split (of_char CHR ''.'') filename)
      in identifier)"

text \<open>\<^verbatim>\<open>get_excel_row\<close> (lines 117 to 139): an exception becomes an error dictionary.\<close>

definition get_excel_row :: "world \<Rightarrow> pystr \<Rightarrow> pyval" where
  "get_excel_row w identifier =
     (case get_excel_row_try (excel_df w) (excel_match_column w) identifier of
        Inl e \<Rightarrow> PDict [(lit ''error'', PStr (str_exn e))]
      | Inr row_data \<Rightarrow> row_data)"

text \<open>
  The request and its decoding, written the same way in \<^verbatim>\<open>query_api\<close> (lines 144 to 156)
  and in \<^verbatim>\<open>process_single_key_sync\<close> (lines 336 to 343): status 200 has its body parsed and
  converted, any other status gives an error dictionary naming the status.
\<close>

definition api_request :: "world \<Rightarrow> pystr \<Rightarrow> exn + pyval" where
  "api_request w identifier =
     (case http_get w (api_base_url w @ lit ''/'' @ identifier) of
        Raises e \<Rightarrow> Inl e
      | Response status content \<Rightarrow>
          if status = 200 then
            (case content of
               Malformed e \<Rightarrow> Inl e
             | Wellformed tree \<Rightarrow> Inr (xml_to_dict tree))
          else Inr (PDict [(lit ''error'',
                 PStr (lit ''API request failed with status '' @ str_int status))]))"

text \<open>\<^verbatim>\<open>query_api\<close> (lines 141 to 160): its own handler turns an exception into a dictionary.\<close>

definition query_api :: "world \<Rightarrow> pystr \<Rightarrow> pyval" where
  "query_api w identifier =
     (case api_request w identifier of
        Inl e \<Rightarrow> PDict [(lit ''error'', PStr (str_exn e))]
      | Inr api \<Rightarrow> api)"

text \<open>\<^verbatim>\<open>combine_data\<close> (lines 191 to 204).\<close>

definition combine_data :: "world \<Rightarrow> pystr \<Rightarrow> pyval \<Rightarrow> pyval \<Rightarrow> pyval" where
  "combine_data w key excel api =
     PDict [(lit ''s3_key'', PStr key),
            (lit ''processing_timestamp'', PStr (timestamp_now w key)),
            (lit ''excel_data'', excel),
            (lit ''api_data'', api)]"

text \<open>
  \<^verbatim>\<open>update_s3_metadata\<close> (lines 206 to 229): \<^verbatim>\<open>True\<close> when the copy went through, \<^verbatim>\<open>False\<close>
  when it raised; the exception's text is logged and dropped.
\<close>

definition update_s3_metadata :: "world \<Rightarrow> pystr \<Rightarrow> pyval \<Rightarrow> bool" where
  "update_s3_metadata w key metadata =
     (case s3_copy_object w key metadata of None \<Rightarrow> True | Some e \<Rightarrow> False)"

text \<open>The result every handler of the source builds from a key and an exception.\<close>

definition failed_result :: "pystr \<Rightarrow> exn \<Rightarrow> ProcessingResult" where
  "failed_result key e =
     \<lparr>s3_key = key, excel_data = PDict [], api_data = PDict [], combined_metadata = PDict [],
      success = False, error_message = Some (str_exn e)\<rparr>"

text \<open>
  \<^verbatim>\<open>process_single_key\<close> (lines 231 to 267): the \<^verbatim>\<open>try\<close> block, then the handler. No step of
  the block raises, each having a handler of its own.
\<close>

definition process_single_key_try :: "world \<Rightarrow> pystr \<Rightarrow> exn + ProcessingResult" where
  "process_single_key_try w key =
     (let identifier = extract_identifier_from_key key;
          excel = get_excel_row w identifier;
          api = query_api w identifier;
          combined = combine_data w key excel api;
          ok = update_s3_metadata w key combined
      in Inr \<lparr>s3_key = key, excel_data = excel, api_data = api,
              combined_metadata = combined, success = ok, error_message = None\<rparr>)"

definition process_single_key :: "world \<Rightarrow> pystr \<Rightarrow> ProcessingResult" where
  "process_single_key w key =
     (case process_single_key_try w key of
        Inl e \<Rightarrow> failed_result key e
      | Inr r \<Rightarrow> r)"

text \<open>
  \<^verbatim>\<open>process_single_key_sync\<close> (lines 329 to 364): the request is made in the \<^verbatim>\<open>try\<close> block
  itself, so what it raises reaches the handler of the pipeline.
\<close>

definition process_single_key_sync_try :: "world \<Rightarrow> pystr \<Rightarrow> exn + ProcessingResult" where
  "process_single_key_sync_try w key =
     (let identifier = extract_identifier_from_key key;
          excel = get_excel_row w identifier
      in case api_request w identifier of
           Inl e \<Rightarrow> Inl e
         | Inr api \<Rightarrow>
             (let combined = combine_data w key excel api;
                  ok = update_s3_metadata w key combined
              in Inr \<lparr>s3_key = key, excel_data = excel, api_data = api,
                      combined_metadata = combined, success = ok, error_message = None\<rparr>))"

definition process_single_key_sync :: "world \<Rightarrow> pystr \<Rightarrow> ProcessingResult" where
  "process_single_key_sync w key =
     (case process_single_key_sync_try w key of
        Inl e \<Rightarrow> failed_result key e
      | Inr r \<Rightarrow> r)"

section \<open>The two schedulers\<close>

text \<open>
  What a call of a scheduler does: it returns, it raises, or it never completes.
\<close>

datatype 'a run = Returned 'a | Raised exn | Hangs

text \<open>
  The task of position \<open>i\<close>: the pipeline's result, unless the task faults outside the
  pipeline.
\<close>

definition run_task ::
  "world \<Rightarrow> (world \<Rightarrow> pystr \<Rightarrow> ProcessingResult) \<Rightarrow> nat \<Rightarrow> pystr \<Rightarrow> exn + ProcessingResult" where
  "run_task w pipeline i key =
     (case task_fault w i of
        Some m \<Rightarrow> Inl (Exception m)
      | None \<Rightarrow> Inr (pipeline w key))"

text \<open>
  \<^verbatim>\<open>process_keys_async\<close> (lines 269 to 297). \<^verbatim>\<open>asyncio.Semaphore\<close> refuses a negative value;
  with the value 0 no task is ever admitted, so \<^verbatim>\<open>gather\<close> completes only when there is no
  task. Otherwise \<^verbatim>\<open>gather\<close> with \<^verbatim>\<open>return_exceptions=True\<close> gives one entry per task, in the
  order of the tasks, and the loop of lines 284 to 295 replaces each exception by a failed
  result for the key of the same position.
\<close>

definition gather :: "world \<Rightarrow> pystr list \<Rightarrow> (exn + ProcessingResult) list" where
  "gather w keys = map (\<lambda>(i, key). run_task w process_single_key i key) (enumerate 0 keys)"

definition process_keys_async :: "world \<Rightarrow> pystr list \<Rightarrow> int \<Rightarrow> ProcessingResult list run" where
  "process_keys_async w keys max_concurrent =
     (if max_concurrent < 0 then Raised (Exception (lit ''Semaphore initial value must be >= 0''))
      else if max_concurrent = 0 \<and> keys \<noteq> [] then Hangs
      else Returned
        (map (\<lambda>(i, result). case result of
                 Inl e \<Rightarrow> failed_result (keys ! i) e
               | Inr r \<Rightarrow> r)
           (enumerate 0 (gather w keys))))"

text \<open>
  \<^verbatim>\<open>process_keys_sync\<close> (lines 299 to 327). \<^verbatim>\<open>ThreadPoolExecutor\<close> refuses a size below 1.
  One future is submitted per position of the key list; \<^verbatim>\<open>as_completed\<close> yields every
  future once, in an order the threads decide: \<open>completion\<close> lists the positions in that
  order. A future that raises gives a failed result for its key.
\<close>

definition process_keys_sync ::
  "world \<Rightarrow> pystr list \<Rightarrow> int \<Rightarrow> nat list \<Rightarrow> ProcessingResult list run" where
  "process_keys_sync w keys max_workers completion =
     (if max_workers \<le> 0 then Raised (Exception (lit ''max_workers must be greater than 0''))
      else Returned
        (map (\<lambda>i. case run_task w process_single_key_sync i (keys ! i) of
                 Inl e \<Rightarrow> failed_result (keys ! i) e
               | Inr r \<Rightarrow> r)
           completion))"

text \<open>The tally of \<^verbatim>\<open>run_orchestrator\<close> (lines 384 and 385).\<close>

definition successful :: "ProcessingResult list \<Rightarrow> nat" where
  "successful results = length (filter success results)"

definition failed :: "ProcessingResult list \<Rightarrow> nat" where
  "failed results = length results - successful results"


text \<open>
  The two numbers \<^verbatim>\<open>run_orchestrator\<close> logs for a batch that returned.
\<close>

definition tally :: "ProcessingResult list run \<Rightarrow> (nat \<times> nat) option" where
  "tally r =
     (case r of
        Returned results \<Rightarrow> Some (successful results, failed results)
      | Raised e \<Rightarrow> None
      | Hangs \<Rightarrow> None)"

text \<open>
  The result a scheduler keeps for the task of position \<open>i\<close>: the pipeline's result, or
  the failed result its handler builds when the task raised.
\<close>

definition task_outcome ::
  "world \<Rightarrow> (world \<Rightarrow> pystr \<Rightarrow> ProcessingResult) \<Rightarrow> pystr list \<Rightarrow> nat \<Rightarrow> ProcessingResult" where
  "task_outcome w pipeline keys i =
     (case task_fault w i of
        Some m \<Rightarrow> failed_result (keys ! i) (Exception m)
      | None \<Rightarrow> pipeline w (keys ! i))"

section \<open>A world to run the orchestrator in\<close>

text \<open>
  A small data set and environment. The frame is what pandas makes of a sheet of five
  rows with the columns \<^verbatim>\<open>file_id\<close>, \<^verbatim>\<open>owner\<close> and \<^verbatim>\<open>size\<close>: two rows share the key \<^verbatim>\<open>a\<close>,
  the first of them has no owner, one key is the number 7, the last row has no key and
  its entry stays missing under the cast, and the sizes are floats because one is
  blank. The request for \<^verbatim>\<open>a\<close> times out, the one for \<^verbatim>\<open>b\<close> answers \<^verbatim>\<open><r/>\<close>, every other
  request answers 404, the object \<^verbatim>\<open>docs/locked.xml\<close> refuses the copy, and the task of
  position 2 faults.
\<close>

definition demo_frame :: dataframe where
  "demo_frame =
     \<lparr>df_columns = [lit ''file_id'', lit ''owner'', lit ''size''],
      df_rows =
        [\<lparr>astype_str = map_of [(lit ''file_id'', lit ''b''), (lit ''owner'', lit ''bob''),
                                (lit ''size'', lit ''3.0'')],
          to_dict = [(lit ''file_id'', PStr (lit ''b'')), (lit ''owner'', PStr (lit ''bob'')),
                     (lit ''size'', PFloat (Finite 3))]\<rparr>,
         \<lparr>astype_str = map_of [(lit ''file_id'', lit ''a''), (lit ''size'', lit ''1.0'')],
          to_dict = [(lit ''file_id'', PStr (lit ''a'')), (lit ''owner'', PFloat NaN),
                     (lit ''size'', PFloat (Finite 1))]\<rparr>,
         \<lparr>astype_str = map_of [(lit ''file_id'', lit ''a''), (lit ''owner'', lit ''ann''),
                                (lit ''size'', lit ''2.0'')],
          to_dict = [(lit ''file_id'', PStr (lit ''a'')), (lit ''owner'', PStr (lit ''ann'')),
                     (lit ''size'', PFloat (Finite 2))]\<rparr>,
         \<lparr>astype_str = map_of [(lit ''file_id'', lit ''7''), (lit ''owner'', lit ''eve'')],
          to_dict = [(lit ''file_id'', PInt 7), (lit ''owner'', PStr (lit ''eve'')),
                     (lit ''size'', PFloat NaN)]\<rparr>,
         \<lparr>astype_str = map_of [(lit ''owner'', lit ''zed''), (lit ''size'', lit ''5.0'')],
          to_dict = [(lit ''file_id'', PFloat NaN), (lit ''owner'', PStr (lit ''zed'')),
                     (lit ''size'', PFloat (Finite 5))]\<rparr>],
      df_key_error = (\<lambda>label. lit [CHR 0x27] @ label @ lit [CHR 0x27])\<rparr>"

definition demo_world :: world where
  "demo_world =
     \<lparr>excel_df = demo_frame,
      excel_match_column = lit ''file_id'',
      api_base_url = lit ''http://api'',
      http_get = (\<lambda>url.
        if url = lit ''http://api/a'' then Raises (Exception (lit ''timed out''))
        else if url = lit ''http://api/b'' then Response 200 (Wellformed (Element (lit ''r'') [] None []))
        else Response 404 (Malformed (Exception (lit ''no element found'')))),
      s3_copy_object = (\<lambda>key metadata.
        if key = lit ''docs/locked.xml'' then Some (lit ''AccessDenied'') else None),
      timestamp_now = (\<lambda>key. (lit ''2024-01-01T00:00:00'')),
      task_fault = (\<lambda>i. if i = 2 then Some (lit ''executor shut down'') else None)\<rparr>"

section \<open>Literals\<close>

lemma lit_eq_iff [simp]: "lit a = lit b \<longleftrightarrow> a = b"
  by (simp add: lit_def inj_on_def)

lemma lit_append [simp]: "lit a @ lit b = lit (a @ b)"
  by (simp add: lit_def)

lemma lit_Nil [simp]: "lit [] = []"
  by (simp add: lit_def)

lemma lit_is_Nil [simp]: "lit s = [] \<longleftrightarrow> s = []"
  by (simp add: lit_def)

section \<open>Dictionaries\<close>

lemma dict_get_set: "dict_get (dict_set d k v) t = (if t = k then Some v else dict_get d t)"
  by (induction d) (auto simp: dict_get_def)

lemma dict_set_fresh: "k \<notin> fst ` set d \<Longrightarrow> dict_set d k v = d @ [(k, v)]"
  by (induction d) auto

lemma dict_update_distinct:
  "distinct (map fst (d @ other)) \<Longrightarrow> dict_update d other = d @ other"
proof (induction other arbitrary: d)
  case Nil
  then show ?case by (simp add: dict_update_def)
next
  case (Cons kv other)
  obtain k v where kv: "kv = (k, v)" by (cases kv)
  have fresh: "k \<notin> fst ` set d" using Cons.prems kv by auto
  have "distinct (map fst ((d @ [(k, v)]) @ other))" using Cons.prems kv by simp
  from Cons.IH [OF this] show ?case
    using kv fresh by (simp add: dict_update_def dict_set_fresh)
qed

lemma dict_get_update_other:
  "t \<notin> fst ` set other \<Longrightarrow> dict_get (dict_update d other) t = dict_get d t"
proof (induction other arbitrary: d)
  case Nil
  then show ?case by (simp add: dict_update_def)
next
  case (Cons kv other)
  then show ?case
    by (cases kv) (simp add: dict_update_def dict_get_set)
qed

lemma fst_attrib_items: "fst ` set (attrib_items attrs) = fst ` set attrs"
  by (force simp: attrib_items_def)

section \<open>The conversion of the markup tree\<close>

text \<open>The conversion gives a string or a dictionary, never a list.\<close>

lemma xml_not_list: "xml_to_dict e \<noteq> PList vs"
  by (cases e) (auto simp: Let_def split: option.splits)

text \<open>
  The child loop, read at one key: the values of the children that carry this tag are
  added, in document order, to what the key held before the loop.
\<close>

lemma dict_get_add_child:
  "dict_get (add_child d k v) t = (if t = k then slot_add (dict_get d k) v else dict_get d t)"
  by (simp add: add_child_def slot_add_def dict_get_set split: option.split pyval.split)

lemma dict_get_fold_add_child:
  "dict_get (foldl (\<lambda>result child. add_child result (tag child) (f child)) d cs) t =
     foldl slot_add (dict_get d t) (map f (filter (\<lambda>c. tag c = t) cs))"
  by (induction cs arbitrary: d) (simp_all add: dict_get_add_child)

lemma slot_add_list: "foldl slot_add (Some (PList ws)) vs = Some (PList (ws @ vs))"
  by (induction vs arbitrary: ws) (simp_all add: slot_add_def)

lemma slot_add_first:
  assumes "\<And>ws. v \<noteq> PList ws"
  shows "foldl slot_add None (v # vs) = (if vs = [] then Some v else Some (PList (v # vs)))"
proof (cases vs)
  case Nil
  then show ?thesis by (simp add: slot_add_def)
next
  case (Cons u us)
  have "slot_add (Some v) u = Some (PList [v, u])"
    using assms by (cases v) (auto simp add: slot_add_def)
  then show ?thesis using Cons by (simp add: slot_add_def slot_add_list)
qed

lemma slot_add_xml:
  "foldl slot_add None (map xml_to_dict cs) =
     (case map xml_to_dict cs of [] \<Rightarrow> None | [v] \<Rightarrow> Some v | vs \<Rightarrow> Some (PList vs))"
proof (cases cs)
  case Nil
  then show ?thesis by simp
next
  case (Cons c cs')
  then show ?thesis
    using slot_add_first [of "xml_to_dict c" "map xml_to_dict cs'"]
    by (simp add: xml_not_list split: list.split)
qed

lemma slot_add_Some: "slot_add old v \<noteq> None"
  by (simp add: slot_add_def split: option.split pyval.split)

lemma xml_to_dict_children:
  "cs \<noteq> [] \<Longrightarrow>
   xml_to_dict (Element tg attrs txt cs) =
     PDict (foldl (\<lambda>result child. add_child result (tag child) (xml_to_dict child))
              (seed_dict attrs txt) cs)"
  by (simp add: seed_dict_def Let_def split: option.split)

lemma seed_dict_fresh:
  assumes "t \<notin> fst ` set attrs" and "stripped_text txt \<noteq> None \<longrightarrow> t \<noteq> (lit ''text'')"
  shows "dict_get (seed_dict attrs txt) t = None"
proof -
  define r0 where "r0 = (if attrs \<noteq> [] then dict_update [] (attrib_items attrs) else [])"
  have "dict_get (dict_update [] (attrib_items attrs)) t = dict_get [] t"
    using assms(1) by (intro dict_get_update_other) (simp add: fst_attrib_items)
  then have "dict_get r0 t = None"
    by (simp add: r0_def dict_get_def)
  then have "dict_get (case stripped_text txt of None \<Rightarrow> r0
                     | Some s \<Rightarrow> dict_set r0 (lit ''text'') (PStr s)) t = None"
    using assms(2) by (auto simp: dict_get_set split: option.split)
  then show ?thesis unfolding seed_dict_def Let_def r0_def [symmetric] .
qed

lemma seed_dict_id: "dict_get (seed_dict [(lit ''id'', lit ''5'')] txt) (lit ''id'') = Some (PStr (lit ''5''))"
  by (simp add: seed_dict_def Let_def dict_update_def attrib_items_def dict_get_def
        split: option.split)

text \<open>
  C8, as the code has it. A childless node with text \<^verbatim>\<open>42\<close> converts to the string \<^verbatim>\<open>42\<close>.
  The node \<^verbatim>\<open><r><x>1</x><x>2</x></r>\<close> converts to the dictionary that maps \<^verbatim>\<open>x\<close> to the
  list of \<^verbatim>\<open>1\<close> and \<^verbatim>\<open>2\<close>. In general, for a tag \<open>t\<close> carried by some child, and that is
  neither an attribute name of the node nor the key \<^verbatim>\<open>text\<close> of a node with text, the
  result maps \<open>t\<close> to the converted child when one child carries it, and to the list of
  the converted children carrying it, in document order, when several do. A node with
  the attribute \<^verbatim>\<open>id="5"\<close> and one child whose tag is not \<^verbatim>\<open>id\<close> converts to a dictionary
  that maps \<^verbatim>\<open>id\<close> to \<^verbatim>\<open>5\<close> and has an entry under the child's tag.
\<close>

theorem xml_to_dict_grouping:
  "xml_to_dict (Element tga attrsa (Some (lit ''42'')) []) = PStr (lit ''42'')
   \<and> xml_to_dict (Element (lit ''r'') [] None
         [Element (lit ''x'') [] (Some (lit ''1'')) [], Element (lit ''x'') [] (Some (lit ''2'')) []]) =
       PDict [(lit ''x'', PList [PStr (lit ''1''), PStr (lit ''2'')])]
   \<and> (t \<in> tag ` set cs \<and> t \<notin> fst ` set attrsb \<and>
        (stripped_text txtb \<noteq> None \<longrightarrow> t \<noteq> (lit ''text'')) \<longrightarrow>
        (\<exists>d. xml_to_dict (Element tgb attrsb txtb cs) = PDict d \<and>
             dict_get d t =
               (case map xml_to_dict (filter (\<lambda>c. tag c = t) cs) of
                  [v] \<Rightarrow> Some v
                | vs \<Rightarrow> Some (PList vs))))
   \<and> (tag c \<noteq> (lit ''id'') \<longrightarrow>
        (\<exists>d. xml_to_dict (Element tgc [(lit ''id'', lit ''5'')] txtc [c]) = PDict d \<and>
             dict_get d (lit ''id'') = Some (PStr (lit ''5'')) \<and> dict_get d (tag c) \<noteq> None))"
proof (intro conjI impI)
  have "strip (lit ''42'') = lit ''42''" by (simp add: strip_def is_space_def lit_def)
  then show "xml_to_dict (Element tga attrsa (Some (lit ''42'')) []) = PStr (lit ''42'')"
    by (simp add: stripped_text_def)
next
  have "strip (lit ''1'') = lit ''1''" "strip (lit ''2'') = lit ''2''" by (simp_all add: strip_def is_space_def lit_def)
  then show "xml_to_dict (Element (lit ''r'') [] None
         [Element (lit ''x'') [] (Some (lit ''1'')) [], Element (lit ''x'') [] (Some (lit ''2'')) []]) =
       PDict [(lit ''x'', PList [PStr (lit ''1''), PStr (lit ''2'')])]"
    by (simp add: stripped_text_def add_child_def dict_get_def)
next
  assume a: "t \<in> tag ` set cs \<and> t \<notin> fst ` set attrsb \<and>
        (stripped_text txtb \<noteq> None \<longrightarrow> t \<noteq> (lit ''text''))"
  then have ne: "cs \<noteq> []" by auto
  define d where "d = foldl (\<lambda>result child. add_child result (tag child) (xml_to_dict child))
              (seed_dict attrsb txtb) cs"
  have d: "xml_to_dict (Element tgb attrsb txtb cs) = PDict d"
    unfolding d_def by (rule xml_to_dict_children [OF ne])
  have seed: "dict_get (seed_dict attrsb txtb) t = None"
    using a by (intro seed_dict_fresh) simp_all
  have nonempty: "filter (\<lambda>c. tag c = t) cs \<noteq> []"
    using a by (auto simp: filter_empty_conv)
  have "dict_get d t = foldl slot_add None (map xml_to_dict (filter (\<lambda>c. tag c = t) cs))"
    unfolding d_def by (simp add: dict_get_fold_add_child seed)
  then have "dict_get d t =
      (case map xml_to_dict (filter (\<lambda>c. tag c = t) cs) of
         [v] \<Rightarrow> Some v | vs \<Rightarrow> Some (PList vs))"
    using nonempty slot_add_xml [of "filter (\<lambda>c. tag c = t) cs"]
    by (auto split: list.splits)
  with d show "\<exists>d. xml_to_dict (Element tgb attrsb txtb cs) = PDict d \<and>
             dict_get d t =
               (case map xml_to_dict (filter (\<lambda>c. tag c = t) cs) of
                  [v] \<Rightarrow> Some v
                | vs \<Rightarrow> Some (PList vs))"
    by blast
next
  assume a: "tag c \<noteq> (lit ''id'')"
  define d where "d = foldl (\<lambda>result child. add_child result (tag child) (xml_to_dict child))
              (seed_dict [(lit ''id'', lit ''5'')] txtc) [c]"
  have d: "xml_to_dict (Element tgc [(lit ''id'', lit ''5'')] txtc [c]) = PDict d"
    unfolding d_def by (rule xml_to_dict_children) simp
  have "dict_get d (lit ''id'') = Some (PStr (lit ''5''))"
    unfolding d_def using a by (simp add: dict_get_add_child seed_dict_id)
  moreover have "dict_get d (tag c) \<noteq> None"
    unfolding d_def by (simp add: dict_get_add_child slot_add_Some)
  ultimately show "\<exists>d. xml_to_dict (Element tgc [(lit ''id'', lit ''5'')] txtc [c]) = PDict d \<and>
             dict_get d (lit ''id'') = Some (PStr (lit ''5'')) \<and> dict_get d (tag c) \<noteq> None"
    using d by blast
qed

theorem xml_to_dict_grouping_witness:
  "(\<exists>d. xml_to_dict (Element (lit ''r'') [(lit ''id'', lit ''5'')] (Some (lit ''hello''))
            [Element (lit ''x'') [] (Some (lit ''1'')) [], Element (lit ''y'') [] None [],
             Element (lit ''x'') [] (Some (lit ''2'')) []]) = PDict d \<and>
        dict_get d (lit ''x'') = Some (PList [PStr (lit ''1''), PStr (lit ''2'')]))
   \<and> (\<exists>d. xml_to_dict (Element (lit ''n'') [(lit ''id'', lit ''5'')] None
              [Element (lit ''name'') [] (Some (lit ''z'')) []]) = PDict d \<and>
          dict_get d (lit ''id'') = Some (PStr (lit ''5'')) \<and> dict_get d (lit ''name'') \<noteq> None)"
proof -
  have s: "strip (lit ''1'') = lit ''1''" "strip (lit ''2'') = lit ''2''" "strip (lit ''hello'') = lit ''hello''"
    by (simp_all add: strip_def is_space_def lit_def)
  show ?thesis
    using xml_to_dict_grouping [where t = "(lit ''x'')" and attrsb = "[(lit ''id'', lit ''5'')]"
        and txtb = "Some (lit ''hello'')" and tgb = "(lit ''r'')"
        and cs = "[Element (lit ''x'') [] (Some (lit ''1'')) [], Element (lit ''y'') [] None [],
             Element (lit ''x'') [] (Some (lit ''2'')) []]"
        and c = "Element (lit ''name'') [] (Some (lit ''z'')) []" and tgc = "(lit ''n'')" and txtc = None]
    by (simp add: s stripped_text_def)
qed

text \<open>
  The claim C8 as the specification words it fails on a child whose tag is the name of
  an attribute: the attribute's value and the child are merged into one list, so \<^verbatim>\<open>id\<close>
  is no longer mapped to \<^verbatim>\<open>5\<close>.
\<close>

theorem xml_to_dict_attribute_clash:
  "xml_to_dict (Element (lit ''n'') [(lit ''id'', lit ''5'')] None [Element (lit ''id'') [] (Some (lit ''7'')) []]) =
     PDict [(lit ''id'', PList [PStr (lit ''5''), PStr (lit ''7'')])]
   \<and> dict_get [(lit ''id'', PList [PStr (lit ''5''), PStr (lit ''7'')])] (lit ''id'') \<noteq> Some (PStr (lit ''5''))"
proof -
  have "strip (lit ''7'') = lit ''7''" by (simp add: strip_def is_space_def lit_def)
  then show ?thesis
    by (simp add: stripped_text_def add_child_def dict_get_def dict_update_def attrib_items_def)
qed

text \<open>
  C9. A node without children whose text is not empty once trimmed converts to the
  trimmed text alone, whatever its attributes: they are dropped.
\<close>

theorem xml_to_dict_leaf_text:
  "strip raw \<noteq> [] \<Longrightarrow> xml_to_dict (Element tg attrs (Some raw) []) = PStr (strip raw)"
  by (auto simp: stripped_text_def Let_def strip_def)

theorem xml_to_dict_leaf_text_witness:
  "strip ([0xA0, 0x20] @ lit ''42'' @ [0x2003, 0x0A]) \<noteq> [] \<and>
   xml_to_dict (Element (lit ''n'') [(lit ''id'', lit ''5'')]
                  (Some ([0xA0, 0x20] @ lit ''42'' @ [0x2003, 0x0A])) []) = PStr (lit ''42'')"
proof -
  have s: "strip ([0xA0, 0x20] @ lit ''42'' @ [0x2003, 0x0A]) = lit ''42''"
    by (simp add: strip_def is_space_def lit_def)
  then have h: "strip ([0xA0, 0x20] @ lit ''42'' @ [0x2003, 0x0A]) \<noteq> []" by simp
  show ?thesis
    using h xml_to_dict_leaf_text [OF h, of "lit ''n''" "[(lit ''id'', lit ''5'')]"] s
    by simp
qed

text \<open>
  C10. A node without children, without text other than whitespace, and with at least
  one attribute converts to the dictionary of its attributes, each name mapped to its
  string value: neither the empty dictionary nor a string.
\<close>

theorem xml_to_dict_leaf_attributes:
  assumes "attrs \<noteq> []" and "distinct (map fst attrs)"
    and "case txt of None \<Rightarrow> True | Some raw \<Rightarrow> strip raw = []"
  shows "xml_to_dict (Element tg attrs txt []) = PDict (map (\<lambda>(k, v). (k, PStr v)) attrs)
     \<and> xml_to_dict (Element tg attrs txt []) \<noteq> PDict []
     \<and> (\<forall>s. xml_to_dict (Element tg attrs txt []) \<noteq> PStr s)"
proof -
  have "stripped_text txt = None"
    using assms(3) by (auto simp: stripped_text_def split: option.splits)
  moreover have "distinct (map fst ([] @ attrib_items attrs))"
    using assms(2) by (simp add: attrib_items_def comp_def case_prod_unfold)
  then have "dict_update [] (attrib_items attrs) = attrib_items attrs"
    using dict_update_distinct [of "[]" "attrib_items attrs"] by simp
  ultimately show ?thesis
    using assms(1) by (simp add: attrib_items_def)
qed

theorem xml_to_dict_leaf_attributes_witness:
  "xml_to_dict (Element (lit ''n'') [(lit ''id'', lit ''5''), (lit ''lang'', lit ''en'')]
                  (Some [0xA0, 0x85, 0x20, 0x3000]) []) =
     PDict [(lit ''id'', PStr (lit ''5'')), (lit ''lang'', PStr (lit ''en''))]"
proof -
  have h: "case Some [0xA0, 0x85, 0x20, 0x3000] of None \<Rightarrow> True | Some raw \<Rightarrow> strip raw = []"
    by (simp add: strip_def is_space_def)
  show ?thesis
    using xml_to_dict_leaf_attributes
      [of "[(lit ''id'', lit ''5''), (lit ''lang'', lit ''en'')]"
          "Some [0xA0, 0x85, 0x20, 0x3000]" "lit ''n''", OF _ _ h]
    by simp
qed

section \<open>The lookup in the reference dataset\<close>

lemma filter_find:
  "(case filter P xs of [] \<Rightarrow> a | x # _ \<Rightarrow> f x) = (case find P xs of None \<Rightarrow> a | Some x \<Rightarrow> f x)"
  by (induction xs) auto

text \<open>
  C7. On a frame that has the match column, \<^verbatim>\<open>get_excel_row\<close> returns the first row, in
  the order of the frame, whose entry in the match column, cast to a string, is equal to
  the identifier (no trimming, no change of case): there is a position whose row matches
  while no row before it does, and the result is the dictionary of that row, from column
  label to value, in which every missing value (\<^verbatim>\<open>None\<close>, \<^verbatim>\<open>nan\<close>, \<^verbatim>\<open>NaT\<close>) is \<^verbatim>\<open>None\<close> and
  every other value is unchanged. When no row matches, the result is the not-found
  dictionary. The function returns a value in both cases: it does not raise.
\<close>

theorem get_excel_row_first_match:
  assumes "excel_match_column w \<in> set (df_columns (excel_df w))"
  shows
    "(\<exists>i<length (df_rows (excel_df w)).
        astype_str (df_rows (excel_df w) ! i) (excel_match_column w) = Some k \<and>
        (\<forall>j<i. astype_str (df_rows (excel_df w) ! j) (excel_match_column w) \<noteq> Some k) \<and>
        get_excel_row w k =
          PDict (map (\<lambda>(label, v). (label, if v = PNone \<or> v = PFloat NaN \<or> v = PNaT
                                            then PNone else v))
                   (to_dict (df_rows (excel_df w) ! i))))
     \<or> ((\<forall>r \<in> set (df_rows (excel_df w)). astype_str r (excel_match_column w) \<noteq> Some k) \<and>
        get_excel_row w k =
          PDict [(lit ''error'', PStr (lit ''No matching row found for identifier: '' @ k))])"
proof -
  define rows where "rows = df_rows (excel_df w)"
  define col where "col = excel_match_column w"
  define hit where "hit = (\<lambda>r::frame_row. astype_str r col = Some k)"
  have "get_excel_row w k =
      (case filter hit rows of
         [] \<Rightarrow> PDict [(lit ''error'',
                 PStr (lit ''No matching row found for identifier: '' @ k))]
       | r # _ \<Rightarrow> PDict (map (\<lambda>(key, value). (key, if isna value then PNone else value))
                          (to_dict r)))"
    using assms
    by (simp add: get_excel_row_def get_excel_row_try_def rows_def col_def hit_def
        split: list.split)
  also have "\<dots> =
      (case find hit rows of
         None \<Rightarrow> PDict [(lit ''error'',
                   PStr (lit ''No matching row found for identifier: '' @ k))]
       | Some r \<Rightarrow> PDict (map (\<lambda>(key, value). (key, if isna value then PNone else value))
                          (to_dict r)))"
    by (rule filter_find)
  finally have res: "get_excel_row w k =
      (case find hit rows of
         None \<Rightarrow> PDict [(lit ''error'',
                   PStr (lit ''No matching row found for identifier: '' @ k))]
       | Some r \<Rightarrow> PDict (map (\<lambda>(key, value). (key, if isna value then PNone else value))
                          (to_dict r)))" .
  show ?thesis
  proof (cases "find hit rows")
    case None
    then have "\<forall>r \<in> set rows. \<not> hit r" by (simp add: find_None_iff)
    then show ?thesis
      using res None unfolding rows_def col_def hit_def by simp
  next
    case (Some r)
    then obtain i where i: "i < length rows" "hit (rows ! i)" "r = rows ! i"
        "\<forall>j<i. \<not> hit (rows ! j)"
      unfolding find_Some_iff by blast
    have "get_excel_row w k =
        PDict (map (\<lambda>(label, v). (label, if v = PNone \<or> v = PFloat NaN \<or> v = PNaT
                                          then PNone else v)) (to_dict (rows ! i)))"
      using res Some i(3) by (simp add: isna_def)
    then show ?thesis
      using i(1,2,4) unfolding rows_def col_def hit_def by blast
  qed
qed

section \<open>The pipeline and the schedulers\<close>

lemma process_single_key_eq:
  "process_single_key w key =
     \<lparr>s3_key = key,
      excel_data = get_excel_row w (extract_identifier_from_key key),
      api_data = query_api w (extract_identifier_from_key key),
      combined_metadata = combine_data w key (get_excel_row w (extract_identifier_from_key key))
                            (query_api w (extract_identifier_from_key key)),
      success = update_s3_metadata w key
                  (combine_data w key (get_excel_row w (extract_identifier_from_key key))
                     (query_api w (extract_identifier_from_key key))),
      error_message = None\<rparr>"
  by (simp add: process_single_key_def process_single_key_try_def Let_def)

lemma process_single_key_sync_eq:
  "process_single_key_sync w key =
     (case api_request w (extract_identifier_from_key key) of
        Inl e \<Rightarrow> failed_result key e
      | Inr api \<Rightarrow>
          \<lparr>s3_key = key,
           excel_data = get_excel_row w (extract_identifier_from_key key),
           api_data = api,
           combined_metadata =
             combine_data w key (get_excel_row w (extract_identifier_from_key key)) api,
           success = update_s3_metadata w key
                       (combine_data w key (get_excel_row w (extract_identifier_from_key key)) api),
           error_message = None\<rparr>)"
  by (simp add: process_single_key_sync_def process_single_key_sync_try_def Let_def
        split: sum.split)

lemma s3_key_failed_result: "s3_key (failed_result key e) = key"
  by (simp add: failed_result_def)

lemma s3_key_process_single_key: "s3_key (process_single_key w key) = key"
  by (simp add: process_single_key_eq)


lemma s3_key_task_outcome:
  "(\<And>k. s3_key (pipeline w k) = k) \<Longrightarrow> s3_key (task_outcome w pipeline keys i) = keys ! i"
  by (simp add: task_outcome_def s3_key_failed_result split: option.split)

lemma process_keys_async_eq:
  "process_keys_async w keys max_concurrent =
     (if max_concurrent < 0 then Raised (Exception (lit ''Semaphore initial value must be >= 0''))
      else if max_concurrent = 0 \<and> keys \<noteq> [] then Hangs
      else Returned (map (task_outcome w process_single_key keys) [0..<length keys]))"
proof -
  have "map (\<lambda>(i, result). case result of Inl e \<Rightarrow> failed_result (keys ! i) e | Inr r \<Rightarrow> r)
          (enumerate 0 (gather w keys)) =
        map (task_outcome w process_single_key keys) [0..<length keys]"
    by (rule nth_equalityI)
      (simp_all add: gather_def nth_enumerate_eq task_outcome_def run_task_def split: option.split)
  then show ?thesis by (simp add: process_keys_async_def)
qed

lemma process_keys_sync_eq:
  "process_keys_sync w keys max_workers completion =
     (if max_workers \<le> 0 then Raised (Exception (lit ''max_workers must be greater than 0''))
      else Returned (map (task_outcome w process_single_key_sync keys) completion))"
  by (simp add: process_keys_sync_def task_outcome_def run_task_def split: option.split)

text \<open>
  C6. Under the cooperative scheduler the result of position \<open>i\<close> is the result for the
  key of position \<open>i\<close>: whenever \<^verbatim>\<open>process_keys_async\<close> returns, the list has the length of
  the key list and its \<open>i\<close>-th entry carries the \<open>i\<close>-th key; and it does return when the
  concurrency limit is at least 1.
\<close>

theorem process_keys_async_order:
  "(1 \<le> max_concurrent \<longrightarrow> (\<exists>rs. process_keys_async w keys max_concurrent = Returned rs))
   \<and> (\<forall>rs. process_keys_async w keys max_concurrent = Returned rs \<longrightarrow>
         length rs = length keys \<and> (\<forall>i<length keys. s3_key (rs ! i) = keys ! i))"
  by (auto simp: process_keys_async_eq s3_key_task_outcome s3_key_process_single_key
        split: if_splits)



theorem process_keys_async_order_witness:
  "process_keys_async demo_world [lit ''docs/a.xml'', lit ''docs/b.xml''] 1 =
     Returned [process_single_key demo_world (lit ''docs/a.xml''),
               process_single_key demo_world (lit ''docs/b.xml'')]
   \<and> s3_key (process_single_key demo_world (lit ''docs/b.xml'')) = lit ''docs/b.xml''"
proof -
  have r: "process_keys_async demo_world [lit ''docs/a.xml'', lit ''docs/b.xml''] 1 =
     Returned [process_single_key demo_world (lit ''docs/a.xml''),
               process_single_key demo_world (lit ''docs/b.xml'')]"
    by (simp add: process_keys_async_def gather_def run_task_def demo_world_def)
  show ?thesis
    using process_keys_async_order [of 1 demo_world "[lit ''docs/a.xml'', lit ''docs/b.xml'']"] r
    by auto
qed

lemma first_hit_rows_nth_mem:
  "i < length rows \<Longrightarrow> astype_str (rows ! i) col \<in> set (map (\<lambda>r. astype_str r col) rows)"
  by (metis nth_mem image_eqI set_map)

theorem get_excel_row_first_match_witness:
  "get_excel_row demo_world (lit ''a'') =
       PDict [(lit ''file_id'', PStr (lit ''a'')), (lit ''owner'', PNone),
              (lit ''size'', PFloat (Finite 1))]
   \<and> get_excel_row demo_world (lit ''nan'') =
       PDict [(lit ''error'', PStr (lit ''No matching row found for identifier: nan''))]"
proof -
  define rows where "rows = df_rows (excel_df demo_world)"
  define col where "col = excel_match_column demo_world"
  have h: "excel_match_column demo_world \<in> set (df_columns (excel_df demo_world))"
    by (simp add: demo_world_def demo_frame_def)
  have len: "length rows = 5"
    by (simp add: rows_def demo_world_def demo_frame_def)
  have keys: "map (\<lambda>r. astype_str r col) rows =
      [Some (lit ''b''), Some (lit ''a''), Some (lit ''a''), Some (lit ''7''), None]"
    by (simp add: rows_def col_def demo_world_def demo_frame_def)
  have key: "astype_str (rows ! i) col =
      [Some (lit ''b''), Some (lit ''a''), Some (lit ''a''), Some (lit ''7''), None] ! i"
    if "i < 5" for i
    using that len nth_map [of i rows "\<lambda>r. astype_str r col"] by (simp add: keys)
  have k: "astype_str (rows ! 0) col = Some (lit ''b'')"
      "astype_str (rows ! 1) col = Some (lit ''a'')"
    by (simp_all add: key)
  have row1: "to_dict (rows ! 1) =
      [(lit ''file_id'', PStr (lit ''a'')), (lit ''owner'', PFloat NaN),
       (lit ''size'', PFloat (Finite 1))]"
    by (simp add: rows_def demo_world_def demo_frame_def)
  have a: "get_excel_row demo_world (lit ''a'') =
       PDict [(lit ''file_id'', PStr (lit ''a'')), (lit ''owner'', PNone),
              (lit ''size'', PFloat (Finite 1))]"
    using get_excel_row_first_match [OF h, of "lit ''a''"]
  proof (elim disjE exE conjE)
    fix i
    assume i: "i < length (df_rows (excel_df demo_world))"
      "astype_str (df_rows (excel_df demo_world) ! i) (excel_match_column demo_world) =
         Some (lit ''a'')"
      "\<forall>j<i. astype_str (df_rows (excel_df demo_world) ! j) (excel_match_column demo_world) \<noteq>
         Some (lit ''a'')"
    and res: "get_excel_row demo_world (lit ''a'') =
          PDict (map (\<lambda>(label, v). (label, if v = PNone \<or> v = PFloat NaN \<or> v = PNaT
                                            then PNone else v))
                   (to_dict (df_rows (excel_df demo_world) ! i)))"
    have "i \<noteq> 0"
    proof
      assume "i = 0"
      then show False
        using i(2) k(1) unfolding rows_def [symmetric] col_def [symmetric] by simp
    qed
    moreover have "\<not> 1 < i"
    proof
      assume "1 < i"
      with i(3) have "astype_str (rows ! 1) col \<noteq> Some (lit ''a'')"
        unfolding rows_def col_def by simp
      with k(2) show False by simp
    qed
    ultimately have "i = 1" by arith
    then show ?thesis
      using res row1 unfolding rows_def [symmetric] by simp
  next
    assume "\<forall>r\<in>set (df_rows (excel_df demo_world)).
       astype_str r (excel_match_column demo_world) \<noteq> Some (lit ''a'')"
    then have "Some (lit ''a'') \<notin> set (map (\<lambda>r. astype_str r col) rows)"
      unfolding rows_def col_def by auto
    then show ?thesis by (simp add: keys)
  qed
  have n: "get_excel_row demo_world (lit ''nan'') =
       PDict [(lit ''error'', PStr (lit ''No matching row found for identifier: nan''))]"
    using get_excel_row_first_match [OF h, of "lit ''nan''"]
  proof (elim disjE exE conjE)
    fix i
    assume i: "i < length (df_rows (excel_df demo_world))"
      "astype_str (df_rows (excel_df demo_world) ! i) (excel_match_column demo_world) =
         Some (lit ''nan'')"
    then have "Some (lit ''nan'') \<in> set (map (\<lambda>r. astype_str r col) rows)"
      unfolding rows_def col_def using first_hit_rows_nth_mem by metis
    then have False by (simp add: keys)
    then show ?thesis ..
  next
    assume "get_excel_row demo_world (lit ''nan'') =
        PDict [(lit ''error'',
                PStr (lit ''No matching row found for identifier: '' @ lit ''nan''))]"
    then show ?thesis by simp
  qed
  show ?thesis using a n by simp
qed

section \<open>Failures of single steps\<close>

lemma extract_a: "extract_identifier_from_key (lit ''docs/a.xml'') = lit ''a''"
  by (simp add: extract_identifier_from_key_def lit_def)

lemma extract_b: "extract_identifier_from_key (lit ''docs/b.xml'') = lit ''b''"
  by (simp add: extract_identifier_from_key_def lit_def)

lemma extract_c: "extract_identifier_from_key (lit ''docs/c.xml'') = lit ''c''"
  by (simp add: extract_identifier_from_key_def lit_def)

lemma extract_locked: "extract_identifier_from_key (lit ''docs/locked.xml'') = lit ''locked''"
  by (simp add: extract_identifier_from_key_def lit_def)

lemma str_int_404: "str_int 404 = lit ''404''"
  by (simp add: str_int_def str_nat.simps lit_def)

lemma successful_all:
  "(\<forall>i<length rs. success (rs ! i)) \<Longrightarrow> successful rs = length rs \<and> failed rs = 0"
  by (simp add: successful_def failed_def filter_id_conv all_set_conv_all_nth)

lemma count_but_one:
  "j < n \<Longrightarrow> length (filter (\<lambda>i. i \<noteq> j) [0..<n]) = n - 1"
proof (induction n)
  case 0
  then show ?case by simp
next
  case (Suc n)
  show ?case
  proof (cases "j = n")
    case True
    then have "filter (\<lambda>i. i \<noteq> j) [0..<n] = [0..<n]"
      by (simp add: filter_id_conv)
    then show ?thesis using True by simp
  next
    case False
    then have "j < n" using Suc.prems by simp
    then show ?thesis using Suc.IH False by simp
  qed
qed

lemma filter_perm_length:
  assumes "mset xs = mset ys"
  shows "length (filter P xs) = length (filter P ys)"
  by (metis assms mset_filter size_mset)

lemma api_request_404:
  assumes "http_get w (api_base_url w @ lit ''/'' @ identifier) = Response 404 content"
  shows "api_request w identifier =
           Inr (PDict [(lit ''error'', PStr (lit ''API request failed with status 404''))])"
  using assms by (simp add: api_request_def str_int_404)

text \<open>
  Where the request and its decoding give a record, the two pipelines give the same
  result. Where they raise, the thread-pool pipeline fails with the text of the
  exception, while the cooperative one goes on with an error dictionary.
\<close>

lemma pipelines_agree:
  assumes "api_request w (extract_identifier_from_key key) = Inr api"
  shows "process_single_key_sync w key = process_single_key w key"
  using assms by (simp add: process_single_key_eq process_single_key_sync_eq query_api_def)

lemma pipelines_on_fetch_error:
  assumes "api_request w (extract_identifier_from_key key) = Inl e"
  shows "process_single_key_sync w key = failed_result key e"
    and "api_data (process_single_key w key) = PDict [(lit ''error'', PStr (str_exn e))]"
    and "success (process_single_key w key) =
           update_s3_metadata w key (combined_metadata (process_single_key w key))"
  using assms by (simp_all add: process_single_key_eq process_single_key_sync_eq query_api_def)

text \<open>
  A batch of \<open>N\<close> keys of which exactly one has a request that raises a transport error,
  with every other request answered, every copy accepted and no task faulting. The
  thread pool returns \<open>N\<close> results of which \<open>N - 1\<close> are successes and one is the failure
  carrying the text of the error. The cooperative scheduler returns \<open>N\<close> successes:
  \<^verbatim>\<open>query_api\<close> catches the error itself and the run goes on.
\<close>

lemma sync_fetch_error_fails_one:
  assumes "1 \<le> c" and "j < length keys"
    and "http_get w (api_base_url w @ lit ''/'' @ extract_identifier_from_key (keys ! j)) =
           Raises e"
    and "\<forall>i<length keys. i \<noteq> j \<longrightarrow>
           (\<exists>tree. http_get w
                      (api_base_url w @ lit ''/'' @ extract_identifier_from_key (keys ! i)) =
                    Response 200 (Wellformed tree))"
    and "\<forall>i<length keys. task_fault w i = None"
    and "\<forall>i<length keys. \<forall>metadata. s3_copy_object w (keys ! i) metadata = None"
    and "mset completion = mset [0..<length keys]"
  shows "\<exists>rs. process_keys_sync w keys c completion = Returned rs \<and>
      length rs = length keys \<and>
      successful rs = length keys - 1 \<and> failed rs = 1 \<and>
      (\<forall>p<length rs. completion ! p = j \<longrightarrow> rs ! p = failed_result (keys ! j) e) \<and>
      (\<forall>p<length rs. completion ! p \<noteq> j \<longrightarrow> success (rs ! p))"
proof -
  define out where "out = task_outcome w process_single_key_sync keys"
  define rs where "rs = map out completion"
  have ret: "process_keys_sync w keys c completion = Returned rs"
    using assms(1) by (simp add: process_keys_sync_eq rs_def out_def)
  have len: "length completion = length keys"
    using assms(7) by (metis length_upt mset_eq_length minus_nat.diff_0)
  have range: "i < length keys" if "i \<in> set completion" for i
    using that assms(7) by (metis atLeastLessThan_iff mset_eq_setD set_upt)
  have outj: "out j = failed_result (keys ! j) e"
    using assms(2,3,5)
    by (simp add: out_def task_outcome_def process_single_key_sync_eq api_request_def)
  have outi: "success (out i)" if "i < length keys" "i \<noteq> j" for i
  proof -
    from assms(4) that obtain tree where
      "http_get w (api_base_url w @ lit ''/'' @ extract_identifier_from_key (keys ! i)) =
         Response 200 (Wellformed tree)"
      by blast
    then show ?thesis
      using that assms(5,6)
      by (simp add: out_def task_outcome_def process_single_key_sync_eq api_request_def
          update_s3_metadata_def)
  qed
  have iff: "success (out i) \<longleftrightarrow> i \<noteq> j" if "i \<in> set completion" for i
    using range [OF that] outi [of i] outj by (auto simp: failed_result_def)
  have "filter success rs = map out (filter (\<lambda>i. success (out i)) completion)"
    by (simp add: rs_def filter_map comp_def)
  also have "filter (\<lambda>i. success (out i)) completion = filter (\<lambda>i. i \<noteq> j) completion"
    by (rule filter_cong) (simp_all add: iff)
  finally have "successful rs = length (filter (\<lambda>i. i \<noteq> j) completion)"
    by (simp add: successful_def)
  also have "\<dots> = length (filter (\<lambda>i. i \<noteq> j) [0..<length keys])"
    by (rule filter_perm_length [OF assms(7)])
  also have "\<dots> = length keys - 1"
    by (rule count_but_one [OF assms(2)])
  finally have succ: "successful rs = length keys - 1" .
  have lrs: "length rs = length keys" using len by (simp add: rs_def)
  have fl: "failed rs = 1"
    using succ lrs assms(2) by (simp add: failed_def)
  have at_j: "\<forall>p<length rs. completion ! p = j \<longrightarrow> rs ! p = failed_result (keys ! j) e"
    using outj by (simp add: rs_def)
  have others: "\<forall>p<length rs. completion ! p \<noteq> j \<longrightarrow> success (rs ! p)"
    using outi range by (simp add: rs_def)
  show ?thesis
    using ret lrs succ fl at_j others by blast
qed

lemma async_fetch_error_is_soft:
  assumes "1 \<le> c" and "j < length keys"
    and "http_get w (api_base_url w @ lit ''/'' @ extract_identifier_from_key (keys ! j)) =
           Raises e"
    and "\<forall>i<length keys. task_fault w i = None"
    and "\<forall>i<length keys. \<forall>metadata. s3_copy_object w (keys ! i) metadata = None"
  shows "\<exists>rs. process_keys_async w keys c = Returned rs \<and>
      length rs = length keys \<and>
      successful rs = length keys \<and> failed rs = 0 \<and>
      (\<forall>i<length keys. s3_key (rs ! i) = keys ! i \<and> success (rs ! i) \<and>
                          error_message (rs ! i) = None) \<and>
      api_data (rs ! j) = PDict [(lit ''error'', PStr (str_exn e))]"
proof -
  define rs where "rs = map (task_outcome w process_single_key keys) [0..<length keys]"
  have ret: "process_keys_async w keys c = Returned rs"
    using assms(1) by (simp add: process_keys_async_eq rs_def)
  have len: "length rs = length keys" by (simp add: rs_def)
  have nth: "rs ! i = process_single_key w (keys ! i)" if "i < length keys" for i
    using that assms(4) by (simp add: rs_def task_outcome_def)
  have ok: "success (rs ! i)" if "i < length keys" for i
    using that assms(5) by (simp add: nth process_single_key_eq update_s3_metadata_def)
  have each: "\<forall>i<length keys. s3_key (rs ! i) = keys ! i \<and> success (rs ! i) \<and>
                          error_message (rs ! i) = None"
    using ok by (simp add: nth process_single_key_eq)
  have counts: "successful rs = length rs \<and> failed rs = 0"
    by (rule successful_all) (simp add: len ok)
  have "api_data (rs ! j) = PDict [(lit ''error'', PStr (str_exn e))]"
    using assms(2,3) by (simp add: nth process_single_key_eq query_api_def api_request_def)
  then show ?thesis using ret len each counts by simp
qed

text \<open>
  C1 does not hold of the cooperative scheduler. In the batch of the keys \<^verbatim>\<open>docs/a.xml\<close>
  and \<^verbatim>\<open>docs/b.xml\<close> the request for \<^verbatim>\<open>a\<close> times out, the one for \<^verbatim>\<open>b\<close> is answered, both
  rows are found and both copies accepted. The thread pool reports one success and one
  failure, whose error message is the text of the timeout, as the claim says; the
  cooperative scheduler reports two successes and no failure.
\<close>

theorem fetch_error_tally_by_strategy:
  "api_request demo_world (extract_identifier_from_key (lit ''docs/a.xml'')) =
       Inl (Exception (lit ''timed out''))
   \<and> api_request demo_world (extract_identifier_from_key (lit ''docs/b.xml'')) = Inr (PDict [])
   \<and> tally (process_keys_sync demo_world [lit ''docs/a.xml'', lit ''docs/b.xml''] 2 [0, 1]) =
       Some (1, 1)
   \<and> tally (process_keys_sync demo_world [lit ''docs/a.xml'', lit ''docs/b.xml''] 2 [1, 0]) =
       Some (1, 1)
   \<and> error_message (process_single_key_sync demo_world (lit ''docs/a.xml'')) =
       Some (lit ''timed out'')
   \<and> tally (process_keys_async demo_world [lit ''docs/a.xml'', lit ''docs/b.xml''] 2) =
       Some (2, 0)
   \<and> success (process_single_key demo_world (lit ''docs/a.xml'')) = True
   \<and> error_message (process_single_key demo_world (lit ''docs/a.xml'')) = None"
proof -
  have a: "api_request demo_world (lit ''a'') = Inl (Exception (lit ''timed out''))"
    by (simp add: api_request_def demo_world_def)
  have b: "api_request demo_world (lit ''b'') = Inr (PDict [])"
    by (simp add: api_request_def demo_world_def stripped_text_def)
  have w: "update_s3_metadata demo_world (lit ''docs/a.xml'') md = True"
      "update_s3_metadata demo_world (lit ''docs/b.xml'') md = True" for md
    by (simp_all add: update_s3_metadata_def demo_world_def)
  have f: "task_fault demo_world 0 = None" "task_fault demo_world (Suc 0) = None"
    by (simp_all add: demo_world_def)
  show ?thesis
    by (simp add: extract_a extract_b a b w f tally_def process_keys_async_eq
        process_keys_sync_eq task_outcome_def process_single_key_eq process_single_key_sync_eq
        successful_def failed_def failed_result_def str_exn_def upt_rec)
qed

text \<open>
  C2 does not hold of the code. On the batch of the single key \<^verbatim>\<open>docs/a.xml\<close>, whose
  request times out while its copy is accepted, the cooperative scheduler returns a
  success with the lookup row and an error dictionary as remote record and no error
  message, and the thread pool returns a failure with empty lookup row and remote record
  and the error message \<^verbatim>\<open>timed out\<close>.
\<close>

theorem strategies_differ_on_fetch_error:
  "process_keys_async demo_world [lit ''docs/a.xml''] 1 =
       Returned [process_single_key demo_world (lit ''docs/a.xml'')]
   \<and> process_keys_sync demo_world [lit ''docs/a.xml''] 1 [0] =
       Returned [process_single_key_sync demo_world (lit ''docs/a.xml'')]
   \<and> success (process_single_key demo_world (lit ''docs/a.xml'')) = True
   \<and> api_data (process_single_key demo_world (lit ''docs/a.xml'')) =
       PDict [(lit ''error'', PStr (lit ''timed out''))]
   \<and> error_message (process_single_key demo_world (lit ''docs/a.xml'')) = None
   \<and> excel_data (process_single_key demo_world (lit ''docs/a.xml'')) =
       PDict [(lit ''file_id'', PStr (lit ''a'')), (lit ''owner'', PNone),
              (lit ''size'', PFloat (Finite 1))]
   \<and> success (process_single_key_sync demo_world (lit ''docs/a.xml'')) = False
   \<and> api_data (process_single_key_sync demo_world (lit ''docs/a.xml'')) = PDict []
   \<and> error_message (process_single_key_sync demo_world (lit ''docs/a.xml'')) =
       Some (lit ''timed out'')
   \<and> excel_data (process_single_key_sync demo_world (lit ''docs/a.xml'')) = PDict []"
proof -
  have a: "api_request demo_world (lit ''a'') = Inl (Exception (lit ''timed out''))"
    by (simp add: api_request_def demo_world_def)
  have x: "get_excel_row demo_world (lit ''a'') =
       PDict [(lit ''file_id'', PStr (lit ''a'')), (lit ''owner'', PNone),
              (lit ''size'', PFloat (Finite 1))]"
    by (simp add: get_excel_row_def get_excel_row_try_def demo_world_def demo_frame_def
        isna_def)
  have w: "update_s3_metadata demo_world (lit ''docs/a.xml'') md = True" for md
    by (simp add: update_s3_metadata_def demo_world_def)
  have f: "task_fault demo_world 0 = None" by (simp add: demo_world_def)
  show ?thesis
    by (simp add: process_keys_async_eq process_keys_sync_eq task_outcome_def f
        process_single_key_eq process_single_key_sync_eq extract_a a x w query_api_def
        failed_result_def str_exn_def)
qed

text \<open>
  C3, as the code has it. When the request for a key is answered with status 404, the
  remote record is the dictionary that maps \<^verbatim>\<open>error\<close> to the text
  \<^verbatim>\<open>API request failed with status 404\<close>; the pipeline goes on to combine the data with
  this record and to write: its success flag is what the writer returns for the combined
  metadata, it has no error message, and the two strategies give the same result.
\<close>

theorem status_404_is_soft:
  assumes "http_get w (api_base_url w @ lit ''/'' @ extract_identifier_from_key key) =
             Response 404 content"
  shows "query_api w (extract_identifier_from_key key) =
           PDict [(lit ''error'', PStr (lit ''API request failed with status 404''))]
     \<and> api_data (process_single_key w key) =
           PDict [(lit ''error'', PStr (lit ''API request failed with status 404''))]
     \<and> combined_metadata (process_single_key w key) =
           combine_data w key (get_excel_row w (extract_identifier_from_key key))
             (PDict [(lit ''error'', PStr (lit ''API request failed with status 404''))])
     \<and> success (process_single_key w key) =
           update_s3_metadata w key (combined_metadata (process_single_key w key))
     \<and> error_message (process_single_key w key) = None
     \<and> process_single_key_sync w key = process_single_key w key"
  using api_request_404 [OF assms]
  by (simp add: process_single_key_eq process_single_key_sync_eq query_api_def)

theorem status_404_is_soft_witness:
  "query_api demo_world (extract_identifier_from_key (lit ''docs/locked.xml'')) =
       PDict [(lit ''error'', PStr (lit ''API request failed with status 404''))]
   \<and> success (process_single_key demo_world (lit ''docs/locked.xml'')) = False
   \<and> success (process_single_key demo_world (lit ''docs/c.xml'')) = True
   \<and> api_data (process_single_key demo_world (lit ''docs/c.xml'')) =
       PDict [(lit ''error'', PStr (lit ''API request failed with status 404''))]
   \<and> process_single_key_sync demo_world (lit ''docs/c.xml'') =
       process_single_key demo_world (lit ''docs/c.xml'')"
proof -
  have h1: "http_get demo_world
      (api_base_url demo_world @ lit ''/'' @ extract_identifier_from_key (lit ''docs/locked.xml'')) =
      Response 404 (Malformed (Exception (lit ''no element found'')))"
    by (simp add: extract_locked demo_world_def)
  have h2: "http_get demo_world
      (api_base_url demo_world @ lit ''/'' @ extract_identifier_from_key (lit ''docs/c.xml'')) =
      Response 404 (Malformed (Exception (lit ''no element found'')))"
    by (simp add: extract_c demo_world_def)
  have w1: "update_s3_metadata demo_world (lit ''docs/locked.xml'') md = False" for md
    by (simp add: update_s3_metadata_def demo_world_def)
  have w2: "update_s3_metadata demo_world (lit ''docs/c.xml'') md = True" for md
    by (simp add: update_s3_metadata_def demo_world_def)
  show ?thesis
    using status_404_is_soft [OF h1] status_404_is_soft [OF h2] by (simp add: w1 w2)
qed

text \<open>
  The claim C3 as the specification words it asks for the record that maps \<^verbatim>\<open>error\<close> to
  \<^verbatim>\<open>404\<close>; the code puts the status into a sentence.
\<close>

theorem status_404_record:
  "http_get demo_world (api_base_url demo_world @ lit ''/'' @ lit ''c'') =
       Response 404 (Malformed (Exception (lit ''no element found'')))
   \<and> query_api demo_world (lit ''c'') =
       PDict [(lit ''error'', PStr (lit ''API request failed with status 404''))]
   \<and> query_api demo_world (lit ''c'') \<noteq> PDict [(lit ''error'', PStr (lit ''404''))]"
  by (simp add: query_api_def api_request_def str_int_404 demo_world_def)

text \<open>
  C4, as the code has it. When the writer returns \<^verbatim>\<open>False\<close> for the combined metadata of a
  run, the run does not raise; its result keeps the key, the lookup row, the remote
  record and the combined metadata, has the success flag \<^verbatim>\<open>False\<close>, and has no error
  message: the writer gives back a boolean only, and the text of its error is logged,
  not kept. This holds of the cooperative pipeline, and of the thread-pool pipeline
  whenever its request gave a record, so that the writer was reached.
\<close>

theorem write_failure_result:
  "(update_s3_metadata w key
       (combine_data w key (get_excel_row w (extract_identifier_from_key key))
          (query_api w (extract_identifier_from_key key))) = False \<longrightarrow>
      process_single_key w key =
        \<lparr>s3_key = key,
         excel_data = get_excel_row w (extract_identifier_from_key key),
         api_data = query_api w (extract_identifier_from_key key),
         combined_metadata =
           combine_data w key (get_excel_row w (extract_identifier_from_key key))
             (query_api w (extract_identifier_from_key key)),
         success = False,
         error_message = None\<rparr>)
   \<and> (api_request w (extract_identifier_from_key key) = Inr api \<and>
       update_s3_metadata w key
         (combine_data w key (get_excel_row w (extract_identifier_from_key key)) api) = False \<longrightarrow>
      process_single_key_sync w key =
        \<lparr>s3_key = key,
         excel_data = get_excel_row w (extract_identifier_from_key key),
         api_data = api,
         combined_metadata =
           combine_data w key (get_excel_row w (extract_identifier_from_key key)) api,
         success = False,
         error_message = None\<rparr>)"
  by (simp add: process_single_key_eq process_single_key_sync_eq)

theorem write_failure_result_witness:
  "update_s3_metadata demo_world (lit ''docs/locked.xml'')
       (combine_data demo_world (lit ''docs/locked.xml'')
          (get_excel_row demo_world (lit ''locked''))
          (query_api demo_world (lit ''locked''))) = False
   \<and> process_single_key demo_world (lit ''docs/locked.xml'') =
       \<lparr>s3_key = lit ''docs/locked.xml'',
        excel_data =
          PDict [(lit ''error'', PStr (lit ''No matching row found for identifier: locked''))],
        api_data = PDict [(lit ''error'', PStr (lit ''API request failed with status 404''))],
        combined_metadata =
          PDict [(lit ''s3_key'', PStr (lit ''docs/locked.xml'')),
                 (lit ''processing_timestamp'', PStr (lit ''2024-01-01T00:00:00'')),
                 (lit ''excel_data'',
                  PDict [(lit ''error'',
                          PStr (lit ''No matching row found for identifier: locked''))]),
                 (lit ''api_data'',
                  PDict [(lit ''error'', PStr (lit ''API request failed with status 404''))])],
        success = False,
        error_message = None\<rparr>
   \<and> process_single_key_sync demo_world (lit ''docs/locked.xml'') =
       process_single_key demo_world (lit ''docs/locked.xml'')"
proof -
  have w: "update_s3_metadata demo_world (lit ''docs/locked.xml'') md = False" for md
    by (simp add: update_s3_metadata_def demo_world_def)
  have a: "api_request demo_world (lit ''locked'') =
      Inr (PDict [(lit ''error'', PStr (lit ''API request failed with status 404''))])"
    by (simp add: api_request_def str_int_404 demo_world_def)
  have x: "get_excel_row demo_world (lit ''locked'') =
      PDict [(lit ''error'', PStr (lit ''No matching row found for identifier: locked''))]"
    by (simp add: get_excel_row_def get_excel_row_try_def demo_world_def demo_frame_def)
  have q: "query_api demo_world (lit ''locked'') =
      PDict [(lit ''error'', PStr (lit ''API request failed with status 404''))]"
    by (simp add: query_api_def a)
  have t: "timestamp_now demo_world (lit ''docs/locked.xml'') = lit ''2024-01-01T00:00:00''"
    by (simp add: demo_world_def)
  show ?thesis
    using write_failure_result [of demo_world "lit ''docs/locked.xml''"
        "PDict [(lit ''error'', PStr (lit ''API request failed with status 404''))]"]
    by (simp add: extract_locked w a x q t combine_data_def)
qed

text \<open>
  The claim C4 as the specification words it asks for the error text of the failing step
  in the error message; for the object that refuses the copy with \<^verbatim>\<open>AccessDenied\<close> the
  result has no error message at all.
\<close>

theorem write_failure_drops_error_text:
  "s3_copy_object demo_world (lit ''docs/locked.xml'')
       (combined_metadata (process_single_key demo_world (lit ''docs/locked.xml''))) =
       Some (lit ''AccessDenied'')
   \<and> update_s3_metadata demo_world (lit ''docs/locked.xml'')
       (combined_metadata (process_single_key demo_world (lit ''docs/locked.xml''))) = False
   \<and> success (process_single_key demo_world (lit ''docs/locked.xml'')) = False
   \<and> error_message (process_single_key demo_world (lit ''docs/locked.xml'')) = None
   \<and> error_message (process_single_key demo_world (lit ''docs/locked.xml'')) \<noteq>
       Some (lit ''AccessDenied'')"
  by (simp add: process_single_key_eq update_s3_metadata_def demo_world_def)

end
